theory Spec2Isabelle
  imports Complex_Main "HOL-Library.Multiset"
begin

section \<open>Quality control of a lot of parts: Atividade2EaD.py\<close>

text \<open>Part one holds the embedding of the script, part two the properties.\<close>

text \<open>
  The script is one linear computation. Its floating-point numbers are embedded as exact
  reals; where the script divides by a quantity that can be zero, the result of numpy's
  division (a finite value, an infinity or NaN) is written out in the model.
\<close>

subsection \<open>Sample size (lines 77 to 83)\<close>

text \<open>
  \<^verbatim>\<open>n_calculado = (z**2 * p * (1-p) * N) / (E**2 * (N-1) + z**2 * p * (1-p))\<close>
  \<^verbatim>\<open>n_amostra = int(np.ceil(n_calculado))\<close>
  \<open>N\<close> is a Python integer, \<open>z\<close>, \<open>p\<close> and \<open>E\<close> are floats.
\<close>

definition n_calculado :: "int \<Rightarrow> real \<Rightarrow> real \<Rightarrow> real \<Rightarrow> real" where
  "n_calculado N z p E =
     (z\<^sup>2 * p * (1 - p) * real_of_int N) / (E\<^sup>2 * real_of_int (N - 1) + z\<^sup>2 * p * (1 - p))"

definition n_amostra :: "int \<Rightarrow> real \<Rightarrow> real \<Rightarrow> real \<Rightarrow> int" where
  "n_amostra N z p E = \<lceil>n_calculado N z p E\<rceil>"

text \<open>The constants of the script: \<open>N = 5000\<close>, \<open>z = 1.96\<close>, \<open>p = 0.5\<close>, \<open>E = 0.02\<close>.\<close>

definition N_lote :: int where "N_lote = 5000"
definition z_lote :: real where "z_lote = 196 / 100"
definition p_lote :: real where "p_lote = 1 / 2"
definition E_lote :: real where "E_lote = 2 / 100"

definition n_amostra_lote :: int where
  "n_amostra_lote = n_amostra N_lote z_lote p_lote E_lote"


subsection \<open>Exceptions and numpy's special values\<close>

datatype excecao =
    ImportError
  | ModuleNotFoundError
  | ValueError
  | IndexError
  | OSError
  | Outra string


text \<open>
  A numpy float is a finite number, an infinity or NaN. numpy's true division does not
  raise on a zero divisor: it gives NaN for \<open>0 / 0\<close> and a signed infinity otherwise
  (the script silences the warnings at line 9).
\<close>

datatype npfloat = Fin real | PInf | NInf | NaN

definition np_divide :: "real \<Rightarrow> real \<Rightarrow> npfloat" where
  "np_divide a b =
     (if b \<noteq> 0 then Fin (a / b)
      else if a = 0 then NaN
      else if 0 < a then PInf else NInf)"

fun np_abs :: "npfloat \<Rightarrow> npfloat" where
  "np_abs (Fin x) = Fin \<bar>x\<bar>"
| "np_abs PInf = PInf"
| "np_abs NInf = PInf"
| "np_abs NaN = NaN"

text \<open>Comparisons of a numpy float with a finite number; every comparison with NaN is false.\<close>

fun np_less :: "npfloat \<Rightarrow> real \<Rightarrow> bool" where
  "np_less (Fin x) a = (x < a)"
| "np_less NInf a = True"
| "np_less PInf a = False"
| "np_less NaN a = False"

fun np_le :: "npfloat \<Rightarrow> real \<Rightarrow> bool" where
  "np_le (Fin x) a = (x \<le> a)"
| "np_le NInf a = True"
| "np_le PInf a = False"
| "np_le NaN a = False"

fun np_ge :: "npfloat \<Rightarrow> real \<Rightarrow> bool" where
  "np_ge (Fin x) a = (a \<le> x)"
| "np_ge PInf a = True"
| "np_ge NInf a = False"
| "np_ge NaN a = False"

subsection \<open>Population and simple random sampling (lines 48 to 51, 92 and 93)\<close>

text \<open>A row of the data frame: the columns \<open>peso\<close> and \<open>dimensao\<close>.\<close>

record peca =
  peso :: real
  dimensao :: real

text \<open>
  \<^verbatim>\<open>np.random.choice(len(populacao), size=n_amostra, replace=False)\<close> is numpy's routine,
  not code of the script. It is modelled by what numpy's legacy generator does for a draw
  without replacement and without weights: it raises \<open>ValueError\<close> when the size is
  negative or larger than the population, and otherwise returns the first \<open>size\<close> entries
  of a Fisher-Yates shuffle of \<open>0, ..., a - 1\<close>. The shuffle runs \<open>i\<close> from \<open>a - 1\<close>
  down to \<open>1\<close>, draws \<open>j\<close> in \<open>0..i\<close> and swaps the entries \<open>i\<close> and \<open>j\<close>. The
  generator's draws are the parameter \<open>g\<close>: \<open>g i\<close> is the raw draw at step \<open>i\<close>, reduced
  into \<open>0..i\<close>.
\<close>

fun embaralhar :: "(nat \<Rightarrow> nat) \<Rightarrow> nat \<Rightarrow> nat list \<Rightarrow> nat list" where
  "embaralhar g 0 xs = xs"
| "embaralhar g (Suc i) xs =
     (let j = g (Suc i) mod Suc (Suc i)
      in embaralhar g i (xs[Suc i := xs ! j, j := xs ! Suc i]))"

definition permutacao :: "(nat \<Rightarrow> nat) \<Rightarrow> nat \<Rightarrow> nat list" where
  "permutacao g a = embaralhar g (a - 1) [0..<a]"

definition np_random_choice :: "(nat \<Rightarrow> nat) \<Rightarrow> nat \<Rightarrow> int \<Rightarrow> excecao + nat list" where
  "np_random_choice g a tamanho =
     (if tamanho < 0 \<or> int a < tamanho then Inl ValueError
      else Inr (take (nat tamanho) (permutacao g a)))"



subsection \<open>Descriptive statistics (lines 104 to 123)\<close>

text \<open>
  The entries of \<^verbatim>\<open>stats_dict\<close> that later steps read, and the two that are derived from
  them. The median, the mode, the range, the quartiles, the skewness and the kurtosis are
  only printed. pandas gives NaN for the mean of an empty column and for the variance of a
  column of fewer than two values; the real-valued functions below are meant for columns of
  at least two values, and the properties proved of them say so.
\<close>

definition media :: "real list \<Rightarrow> real" where
  "media dados = sum_list dados / real (length dados)"

definition variancia :: "real list \<Rightarrow> real" where
  "variancia dados =
     (\<Sum>x\<leftarrow>dados. (x - media dados)\<^sup>2) / (real (length dados) - 1)"

definition desvio_padrao :: "real list \<Rightarrow> real" where
  "desvio_padrao dados = sqrt (variancia dados)"

record estatisticas =
  est_n :: nat
  est_media :: real
  est_desvio_padrao :: real
  est_variancia :: real
  est_coef_variacao :: real

definition calcular_estatisticas :: "real list \<Rightarrow> estatisticas" where
  "calcular_estatisticas dados =
     \<lparr> est_n = length dados,
       est_media = media dados,
       est_desvio_padrao = desvio_padrao dados,
       est_variancia = variancia dados,
       est_coef_variacao = (desvio_padrao dados / media dados) * 100 \<rparr>"

subsection \<open>Hypothesis tests on the means (lines 202 to 255)\<close>

definition peso_target :: real where "peso_target = 150"
definition dimensao_target :: real where "dimensao_target = 25"
definition alpha :: real where "alpha = 5 / 100"

text \<open>
  \<^verbatim>\<open>stats.ttest_1samp(a, popmean)\<close> is scipy's routine. Its statistic is modelled by what
  scipy computes: the difference of the mean and \<open>popmean\<close>, divided with numpy's division
  by the square root of the variance (one degree of freedom removed) over \<open>n\<close>. With
  fewer than two values the variance is NaN and so is the statistic.
\<close>

definition ttest_1samp_t :: "real list \<Rightarrow> real \<Rightarrow> npfloat" where
  "ttest_1samp_t a popmean =
     (if length a < 2 then NaN
      else np_divide (media a - popmean) (sqrt (variancia a / real (length a))))"

text \<open>
  Its p-value is the two-sided tail of Student's distribution: twice the survival function at
  the absolute statistic. The distribution function is a parameter, \<open>t_cdf df\<close> for \<open>df\<close>
  degrees of freedom; so is its inverse \<open>t_ppf q df\<close>, scipy's \<^verbatim>\<open>stats.t.ppf\<close>. An infinite
  statistic has p-value \<open>0\<close>, NaN has NaN.
\<close>

fun valor_p_bilateral :: "(real \<Rightarrow> real) \<Rightarrow> npfloat \<Rightarrow> npfloat" where
  "valor_p_bilateral cdf (Fin t) = Fin (2 * (1 - cdf \<bar>t\<bar>))"
| "valor_p_bilateral cdf PInf = Fin 0"
| "valor_p_bilateral cdf NInf = Fin 0"
| "valor_p_bilateral cdf NaN = NaN"

definition ttest_1samp_p :: "(int \<Rightarrow> real \<Rightarrow> real) \<Rightarrow> real list \<Rightarrow> real \<Rightarrow> npfloat" where
  "ttest_1samp_p t_cdf a popmean =
     valor_p_bilateral (t_cdf (int (length a) - 1)) (ttest_1samp_t a popmean)"

text \<open>Line 214: \<^verbatim>\<open>t_critico = stats.t.ppf(1-alpha/2, len(amostra)-1)\<close>.\<close>

definition t_critico :: "(real \<Rightarrow> int \<Rightarrow> real) \<Rightarrow> nat \<Rightarrow> real" where
  "t_critico t_ppf n = t_ppf (1 - alpha / 2) (int n - 1)"

text \<open>
  The two labels of a test's decision. The second is the script's "do not reject" label, whose
  second letter, an a with a tilde, is written as its two UTF-8 bytes.
\<close>

definition rejeitamos :: string where
  "rejeitamos = ''Rejeitamos H0''"

definition nao_rejeitamos :: string where
  "nao_rejeitamos = ''N'' @ [char_of (0xC3 :: nat), char_of (0xA3 :: nat)] @ ''o rejeitamos H0''"

text \<open>Lines 218 to 223, 247 to 252 and 297 to 302: the decision from a p-value.\<close>

definition decisao :: "npfloat \<Rightarrow> string" where
  "decisao p_value = (if np_less p_value alpha then rejeitamos else nao_rejeitamos)"

definition decisao_peso :: "(int \<Rightarrow> real \<Rightarrow> real) \<Rightarrow> peca list \<Rightarrow> string" where
  "decisao_peso t_cdf amostra = decisao (ttest_1samp_p t_cdf (map peso amostra) peso_target)"

definition decisao_dimensao :: "(int \<Rightarrow> real \<Rightarrow> real) \<Rightarrow> peca list \<Rightarrow> string" where
  "decisao_dimensao t_cdf amostra =
     decisao (ttest_1samp_p t_cdf (map dimensao amostra) dimensao_target)"

subsection \<open>Conformity with the specification (lines 64 to 69, 262 to 287)\<close>

record especificacoes =
  peso_min :: real
  peso_max :: real
  dimensao_min :: real
  dimensao_max :: real

definition especificacoes_lote :: especificacoes where
  "especificacoes_lote =
     \<lparr> peso_min = 140, peso_max = 160, dimensao_min = 235 / 10, dimensao_max = 265 / 10 \<rparr>"

text \<open>The boolean columns, one entry for each row of the sample.\<close>

definition peso_conforme :: "especificacoes \<Rightarrow> peca list \<Rightarrow> bool list" where
  "peso_conforme esp amostra =
     map2 (\<and>) (map (\<lambda>x. peso_min esp \<le> x) (map peso amostra))
               (map (\<lambda>x. x \<le> peso_max esp) (map peso amostra))"

definition dimensao_conforme :: "especificacoes \<Rightarrow> peca list \<Rightarrow> bool list" where
  "dimensao_conforme esp amostra =
     map2 (\<and>) (map (\<lambda>x. dimensao_min esp \<le> x) (map dimensao amostra))
               (map (\<lambda>x. x \<le> dimensao_max esp) (map dimensao amostra))"

definition pecas_conformes :: "especificacoes \<Rightarrow> peca list \<Rightarrow> bool list" where
  "pecas_conformes esp amostra =
     map2 (\<and>) (peso_conforme esp amostra) (dimensao_conforme esp amostra)"

text \<open>The sum of a boolean column counts its true entries.\<close>

definition soma :: "bool list \<Rightarrow> nat" where
  "soma bs = sum_list (map of_bool bs)"

text \<open>Line 269; the quotient is numpy's, so an empty sample gives NaN.\<close>

definition proporcao_conformes :: "especificacoes \<Rightarrow> peca list \<Rightarrow> npfloat" where
  "proporcao_conformes esp amostra =
     np_divide (real (soma (pecas_conformes esp amostra))) (real (length amostra))"

text \<open>
  Lines 280 to 287: the one-sided test of the proportion against \<open>p0 = 0.95\<close>. The standard
  normal distribution function \<^verbatim>\<open>stats.norm.cdf\<close> is a parameter.
\<close>

definition p0 :: real where "p0 = 95 / 100"

definition p_value_prop :: "(real \<Rightarrow> real) \<Rightarrow> especificacoes \<Rightarrow> peca list \<Rightarrow> npfloat" where
  "p_value_prop norm_cdf esp amostra =
     (case proporcao_conformes esp amostra of
        Fin p_obs \<Rightarrow>
          Fin (norm_cdf ((p_obs - p0) / sqrt (p0 * (1 - p0) / real (length amostra))))
      | _ \<Rightarrow> NaN)"

subsection \<open>Confidence intervals (lines 314 to 346)\<close>





text \<open>
  The interval of the proportion. \<open>z_ic\<close> is the value of
  \<^verbatim>\<open>stats.norm.ppf(1 - alpha_ic/2)\<close>, the 97.5 percent point of the standard normal
  distribution, about \<open>1.959964\<close>.
\<close>

definition erro_padrao_prop :: "real \<Rightarrow> nat \<Rightarrow> real" where
  "erro_padrao_prop p_obs n = sqrt (p_obs * (1 - p_obs) / real n)"

definition margem_erro_prop :: "real \<Rightarrow> real \<Rightarrow> nat \<Rightarrow> real" where
  "margem_erro_prop z_ic p_obs n = z_ic * erro_padrao_prop p_obs n"

definition ic_prop_inferior :: "real \<Rightarrow> real \<Rightarrow> nat \<Rightarrow> real" where
  "ic_prop_inferior z_ic p_obs n = max 0 (p_obs - margem_erro_prop z_ic p_obs n)"

definition ic_prop_superior :: "real \<Rightarrow> real \<Rightarrow> nat \<Rightarrow> real" where
  "ic_prop_superior z_ic p_obs n = min 1 (p_obs + margem_erro_prop z_ic p_obs n)"

subsection \<open>Final decision (lines 361 to 382)\<close>

text \<open>The dictionary of criteria, in insertion order.\<close>

definition criterios_aprovacao ::
  "npfloat \<Rightarrow> npfloat \<Rightarrow> real \<Rightarrow> npfloat \<Rightarrow> (string \<times> bool) list" where
  "criterios_aprovacao t_stat_peso t_stat_dimensao t_crit p_valor_prop =
     [(''peso_media_ok'', np_le (np_abs t_stat_peso) t_crit),
      (''dimensao_media_ok'', np_le (np_abs t_stat_dimensao) t_crit),
      (''conformidade_ok'', np_ge p_valor_prop alpha)]"

text \<open>Python's \<^verbatim>\<open>all\<close> over the values: false at the first false value, true at the end.\<close>

fun all_py :: "bool list \<Rightarrow> bool" where
  "all_py [] = True"
| "all_py (b # bs) = (if b then all_py bs else False)"

definition todos_criterios_ok :: "(string \<times> bool) list \<Rightarrow> bool" where
  "todos_criterios_ok criterios = all_py (map snd criterios)"

definition decisao_final :: "(string \<times> bool) list \<Rightarrow> string" where
  "decisao_final criterios =
     (if todos_criterios_ok criterios then ''APROVADO'' else ''REPROVADO'')"

subsection \<open>Set-up of the plotting libraries (lines 12 to 28) and the script as a whole\<close>













subsection \<open>Student's distribution with one degree of freedom\<close>

text \<open>
  For a sample of two values the distribution of the statistic has one degree of freedom,
  and its distribution function and the inverse have closed forms.
\<close>

definition t1_cdf :: "real \<Rightarrow> real" where
  "t1_cdf x = 1 / 2 + arctan x / pi"

definition t1_ppf :: "real \<Rightarrow> real" where
  "t1_ppf q = tan (pi * (q - 1 / 2))"

section \<open>Properties\<close>

subsection \<open>The sample size\<close>






lemma n_amostra_lote_valor: "n_amostra_lote = 1623"
proof -
  have "n_calculado N_lote z_lote p_lote E_lote = 4802 / (296 / 100)"
    by (simp add: n_calculado_def N_lote_def z_lote_def p_lote_def E_lote_def
        power2_eq_square)
  then show ?thesis
    by (simp add: n_amostra_lote_def n_amostra_def ceiling_unique)
qed

text \<open>
  The exact value of \<open>n_calculado\<close> at the constants of the script is \<open>1622.297...\<close>: any
  number within a quarter of it, as the floating-point result is, has the same ceiling.
\<close>

lemma n_amostra_lote_robusto:
  assumes "\<bar>x - n_calculado N_lote z_lote p_lote E_lote\<bar> \<le> 1 / 4"
  shows "\<lceil>x\<rceil> = n_amostra_lote"
proof -
  have v: "n_calculado N_lote z_lote p_lote E_lote = 4802 / (296 / 100)"
    by (simp add: n_calculado_def N_lote_def z_lote_def p_lote_def E_lote_def
        power2_eq_square)
  have "(4802 / (296 / 100) :: real) = 60025 / 37" by simp
  then have "\<bar>x - 60025 / 37\<bar> \<le> 1 / 4" using assms unfolding v by simp
  then have "1622 < x" "x \<le> 1623" by linarith+
  then have "\<lceil>x\<rceil> = 1623" by (simp add: ceiling_unique)
  then show ?thesis by (simp add: n_amostra_lote_valor)
qed



text \<open>
  C8. At the constants of the script the sample size is \<open>1623\<close>, between \<open>1\<close> and the
  population size \<open>5000\<close>, and the draw of that many indices out of \<open>5000\<close> without
  replacement does not raise, whatever the generator draws.
\<close>

theorem n_amostra_lote_dentro_da_populacao:
  "n_amostra_lote = 1623 \<and> 1 \<le> n_amostra_lote \<and> n_amostra_lote \<le> N_lote
   \<and> np_random_choice g (nat N_lote) n_amostra_lote
       = Inr (take (nat n_amostra_lote) (permutacao g (nat N_lote)))"
  by (simp add: n_amostra_lote_valor N_lote_def np_random_choice_def)

subsection \<open>The sample\<close>








subsection \<open>The statistic of the t test\<close>

text \<open>
  C6. For a column of at least two values whose sample standard deviation is not zero,
  the statistic of the one-sample t test of the weight equals the value recomputed from the
  entries of the statistics record: the mean minus \<open>150\<close>, over the standard deviation
  (one degree of freedom removed) divided by the square root of \<open>n\<close>.
\<close>

theorem ttest_estatistica_recalculada:
  assumes "2 \<le> length a" "est_desvio_padrao (calcular_estatisticas a) \<noteq> 0"
  shows "ttest_1samp_t a peso_target =
           Fin ((est_media (calcular_estatisticas a) - peso_target)
                / (est_desvio_padrao (calcular_estatisticas a)
                   / sqrt (real (est_n (calcular_estatisticas a)))))"
proof -
  have n: "0 < real (length a)" using assms(1) by (cases a) simp_all
  have dp: "desvio_padrao a \<noteq> 0" using assms(2) by (simp add: calcular_estatisticas_def)
  have eq: "sqrt (variancia a / real (length a)) = desvio_padrao a / sqrt (real (length a))"
    by (simp add: desvio_padrao_def real_sqrt_divide)
  have nz: "sqrt (variancia a / real (length a)) \<noteq> 0"
    unfolding eq using dp n by simp
  have "ttest_1samp_t a peso_target
          = Fin ((media a - peso_target) / sqrt (variancia a / real (length a)))"
    using assms(1) nz by (simp add: ttest_1samp_t_def np_divide_def)
  then show ?thesis by (simp add: eq calcular_estatisticas_def)
qed

text \<open>The weights \<open>149\<close> and \<open>152\<close>: mean \<open>150.5\<close>, variance \<open>4.5\<close>, statistic \<open>1/3\<close>.\<close>

lemma media2: "media [149, 152] = 301 / 2" by (simp add: media_def)
lemma var2: "variancia [149, 152] = 9 / 2" by (simp add: variancia_def media2 power2_eq_square)
lemma dp2: "desvio_padrao [149, 152] = sqrt (9/2)" by (simp add: desvio_padrao_def var2)

theorem ttest_estatistica_recalculada_witness:
  "ttest_1samp_t [149, 152] peso_target = Fin (1 / 3)"
proof -
  have h: "2 \<le> length [149, 152 :: real]" "est_desvio_padrao (calcular_estatisticas [149, 152]) \<noteq> 0"
    by (simp_all add: calcular_estatisticas_def dp2)
  have "sqrt (9 / 2) / sqrt 2 = sqrt (9 / 4)" by (simp add: real_sqrt_divide[symmetric])
  also have "\<dots> = 3 / 2" by (simp add: real_sqrt_divide)
  finally have s: "sqrt (9 / 2) / sqrt 2 = 3 / 2" .
  show ?thesis using ttest_estatistica_recalculada[OF h]
    by (simp add: calcular_estatisticas_def media2 dp2 peso_target_def s)
qed

subsection \<open>Decision by p-value and criterion by critical value\<close>

lemma rotulos_distintos: "rejeitamos \<noteq> nao_rejeitamos"
  by (simp add: rejeitamos_def nao_rejeitamos_def)

lemma alpha_pos: "0 < alpha" by (simp add: alpha_def)

text \<open>
  With a strictly increasing distribution function whose value at the critical value is
  \<open>1 - alpha/2\<close>, a statistic that is not NaN is not rejected by its p-value exactly when
  its absolute value is at most the critical value.
\<close>

lemma decisao_iff_criterio:
  assumes "t \<noteq> NaN" "strict_mono cdf" "cdf tc = 1 - alpha / 2"
  shows "decisao (valor_p_bilateral cdf t) = nao_rejeitamos \<longleftrightarrow> np_le (np_abs t) tc"
proof (cases t)
  case (Fin x)
  have "2 * (1 - cdf \<bar>x\<bar>) < alpha \<longleftrightarrow> cdf tc < cdf \<bar>x\<bar>"
    unfolding assms(3) by (simp add: field_simps)
  also have "\<dots> \<longleftrightarrow> tc < \<bar>x\<bar>"
    using assms(2) by (rule strict_mono_less)
  finally show ?thesis
    using Fin rotulos_distintos by (auto simp add: decisao_def)
next
  case PInf
  then show ?thesis using alpha_pos rotulos_distintos by (simp add: decisao_def)
next
  case NInf
  then show ?thesis using alpha_pos rotulos_distintos by (simp add: decisao_def)
next
  case NaN
  then show ?thesis using assms(1) by simp
qed

text \<open>The distribution with one degree of freedom meets both conditions.\<close>

lemma t1_cdf_strict_mono: "strict_mono t1_cdf"
  by (rule strict_monoI) (simp add: t1_cdf_def divide_strict_right_mono arctan_less_iff)

lemma t1_cdf_ppf:
  assumes "0 < q" "q < 1"
  shows "t1_cdf (t1_ppf q) = q"
proof -
  have "- (pi / 2) < pi * (q - 1 / 2)" "pi * (q - 1 / 2) < pi / 2"
    using assms pi_gt_zero by (simp_all add: field_simps)
  then have "arctan (tan (pi * (q - 1 / 2))) = pi * (q - 1 / 2)"
    by (rule arctan_tan)
  then show ?thesis by (simp add: t1_cdf_def t1_ppf_def field_simps)
qed

text \<open>
  C9, as amended. For every sample whose two statistics are not NaN (at least two parts,
  and no column that is constant at its target), with Student's distribution function
  strictly increasing and \<open>t_ppf\<close> its inverse at \<open>1 - alpha/2\<close>: the decision of the weight
  test is the label \<open>nao_rejeitamos\<close> exactly when the criterion \<^verbatim>\<open>peso_media_ok\<close>, the
  test \<^verbatim>\<open>abs(t_stat_peso) <= t_critico\<close> of line 362, is true, and likewise for the dimension.
\<close>

theorem decisao_concorda_com_criterio:
  assumes "ttest_1samp_t (map peso amostra) peso_target \<noteq> NaN"
    and "ttest_1samp_t (map dimensao amostra) dimensao_target \<noteq> NaN"
    and "strict_mono (t_cdf (int (length amostra) - 1))"
    and "t_cdf (int (length amostra) - 1) (t_ppf (1 - alpha / 2) (int (length amostra) - 1))
           = 1 - alpha / 2"
  shows "(decisao_peso t_cdf amostra = nao_rejeitamos
            \<longleftrightarrow> np_le (np_abs (ttest_1samp_t (map peso amostra) peso_target))
                  (t_critico t_ppf (length amostra)))
       \<and> (decisao_dimensao t_cdf amostra = nao_rejeitamos
            \<longleftrightarrow> np_le (np_abs (ttest_1samp_t (map dimensao amostra) dimensao_target))
                  (t_critico t_ppf (length amostra)))"
proof -
  have c: "t_cdf (int (length amostra) - 1) (t_critico t_ppf (length amostra)) = 1 - alpha / 2"
    using assms(4) by (simp add: t_critico_def)
  show ?thesis
    using decisao_iff_criterio[OF assms(1) assms(3) c] decisao_iff_criterio[OF assms(2) assms(3) c]
    by (simp add: decisao_peso_def decisao_dimensao_def ttest_1samp_p_def)
qed

lemma t1_critico_gt_1: "1 < t1_ppf (1 - alpha / 2)"
proof -
  have "tan (pi / 4) < tan (pi * (1 - alpha / 2 - 1 / 2))"
    using pi_gt_zero by (intro tan_monotone) (simp_all add: alpha_def field_simps)
  then show ?thesis by (simp add: t1_ppf_def tan_45)
qed

lemma ttest_peso_2: "ttest_1samp_t [149, 152] peso_target = Fin (1 / 3)"
proof -
  have m: "media [149, 152] = 301 / 2" by (simp add: media_def)
  have v: "variancia [149, 152] = 9 / 2" by (simp add: variancia_def m power2_eq_square)
  have "sqrt (9 / 2 / 2) = sqrt ((3 / 2)\<^sup>2)" by (simp add: power2_eq_square)
  then have s: "sqrt (9 / 2 / 2) = 3 / 2" by (simp only: real_sqrt_abs)
  show ?thesis using s by (simp add: ttest_1samp_t_def np_divide_def m v peso_target_def)
qed

lemma ttest_dimensao_2: "ttest_1samp_t [24, 27] dimensao_target = Fin (1 / 3)"
proof -
  have m: "media [24, 27] = 51 / 2" by (simp add: media_def)
  have v: "variancia [24, 27] = 9 / 2" by (simp add: variancia_def m power2_eq_square)
  have "sqrt (9 / 2 / 2) = sqrt ((3 / 2)\<^sup>2)" by (simp add: power2_eq_square)
  then have s: "sqrt (9 / 2 / 2) = 3 / 2" by (simp only: real_sqrt_abs)
  show ?thesis using s by (simp add: ttest_1samp_t_def np_divide_def m v dimensao_target_def)
qed

text \<open>
  A sample of two parts, with one degree of freedom: both statistics are \<open>1/3\<close>, below
  the critical value, and both tests do not reject.
\<close>

theorem decisao_concorda_com_criterio_witness:
  "decisao_peso (\<lambda>df. t1_cdf) [\<lparr>peso = 149, dimensao = 24\<rparr>, \<lparr>peso = 152, dimensao = 27\<rparr>]
     = nao_rejeitamos
   \<and> np_le (np_abs (ttest_1samp_t
          (map peso [\<lparr>peso = 149, dimensao = 24\<rparr>, \<lparr>peso = 152, dimensao = 27\<rparr>]) peso_target))
        (t_critico (\<lambda>q df. t1_ppf q) 2)
   \<and> decisao_dimensao (\<lambda>df. t1_cdf) [\<lparr>peso = 149, dimensao = 24\<rparr>, \<lparr>peso = 152, dimensao = 27\<rparr>]
     = nao_rejeitamos"
proof -
  let ?am = "[\<lparr>peso = 149, dimensao = 24\<rparr>, \<lparr>peso = 152, dimensao = 27\<rparr>]"
  have p: "ttest_1samp_t (map peso ?am) peso_target = Fin (1 / 3)"
    using ttest_peso_2 by simp
  have d: "ttest_1samp_t (map dimensao ?am) dimensao_target = Fin (1 / 3)"
    using ttest_dimensao_2 by simp
  have h1: "ttest_1samp_t (map peso ?am) peso_target \<noteq> NaN" unfolding p by simp
  have h2: "ttest_1samp_t (map dimensao ?am) dimensao_target \<noteq> NaN" unfolding d by simp
  have h3: "strict_mono ((\<lambda>df. t1_cdf) (int (length ?am) - 1))"
    using t1_cdf_strict_mono by simp
  have h4: "(\<lambda>df. t1_cdf) (int (length ?am) - 1)
              ((\<lambda>q df. t1_ppf q) (1 - alpha / 2) (int (length ?am) - 1)) = 1 - alpha / 2"
    using t1_cdf_ppf[of "1 - alpha / 2"] by (simp add: alpha_def)
  have c: "t_critico (\<lambda>q df. t1_ppf q) (length ?am) = t1_ppf (1 - alpha / 2)"
    by (simp add: t_critico_def)
  have ok: "np_le (np_abs (Fin (1 / 3))) (t1_ppf (1 - alpha / 2))"
    using t1_critico_gt_1 by simp
  from decisao_concorda_com_criterio[of ?am "\<lambda>df. t1_cdf" "\<lambda>q df. t1_ppf q", OF h1 h2 h3 h4]
  show ?thesis unfolding p d c using ok by (simp add: t_critico_def)
qed

text \<open>
  A column of two or more values that all equal the target has mean equal to the target and
  variance \<open>0\<close>: the statistic is NaN, the decision is not to reject, and the criterion is
  false, whatever the distribution function and the critical value.
\<close>

lemma media_replicate: "0 < n \<Longrightarrow> media (replicate n c) = c"
  by (simp add: media_def sum_list_replicate)

lemma variancia_replicate: "0 < n \<Longrightarrow> variancia (replicate n c) = 0"
  by (simp add: variancia_def media_replicate map_replicate_const sum_list_replicate)

lemma ttest_amostra_constante:
  assumes "2 \<le> n"
  shows "ttest_1samp_t (replicate n c) c = NaN"
  using assms by (simp add: ttest_1samp_t_def np_divide_def media_replicate variancia_replicate)

lemma decisao_amostra_constante:
  assumes "2 \<le> n"
  shows "decisao (ttest_1samp_p t_cdf (replicate n c) c) = nao_rejeitamos"
    and "\<not> np_le (np_abs (ttest_1samp_t (replicate n c) c)) t_crit"
  using ttest_amostra_constante[OF assms]
  by (simp_all add: ttest_1samp_p_def decisao_def)

lemma t_nan: "ttest_1samp_t [150, 150] peso_target = NaN"
  by (simp add: ttest_1samp_t_def np_divide_def media_def variancia_def peso_target_def)

text \<open>
  C9 as stated fails on a sample whose weights all equal the target: the mean is \<open>150\<close>
  and the variance \<open>0\<close>, the statistic is \<open>0 / 0\<close>, NaN, and so is the p-value. The test
  of \<^verbatim>\<open>p_value_peso < alpha\<close> is false, so the decision is the label \<open>nao_rejeitamos\<close>, and the
  test of \<^verbatim>\<open>abs(t_stat_peso) <= t_critico\<close> is false too, so the criterion is false.
\<close>

theorem decisao_discorda_amostra_constante:
  "decisao_peso (\<lambda>df. t1_cdf) [\<lparr>peso = 150, dimensao = 25\<rparr>, \<lparr>peso = 150, dimensao = 26\<rparr>]
     = nao_rejeitamos
   \<and> \<not> np_le (np_abs (ttest_1samp_t
            (map peso [\<lparr>peso = 150, dimensao = 25\<rparr>, \<lparr>peso = 150, dimensao = 26\<rparr>]) peso_target))
          (t_critico (\<lambda>q df. t1_ppf q) (length [\<lparr>peso = 150, dimensao = 25\<rparr>, \<lparr>peso = 150, dimensao = 26\<rparr>]))"
  using t_nan by (simp add: decisao_peso_def ttest_1samp_p_def decisao_def)

subsection \<open>The conformity proportion\<close>

text \<open>Row by row, the combined boolean column is the conjunction of the four checks.\<close>

lemma pecas_conformes_map:
  "pecas_conformes esp amostra =
     map (\<lambda>r. peso_min esp \<le> peso r \<and> peso r \<le> peso_max esp
             \<and> dimensao_min esp \<le> dimensao r \<and> dimensao r \<le> dimensao_max esp) amostra"
  by (induction amostra)
     (simp_all add: pecas_conformes_def peso_conforme_def dimensao_conforme_def)

lemma soma_conta: "soma (map P xs) = length (filter P xs)"
  by (induction xs) (simp_all add: soma_def)

text \<open>
  C3. For every sample, the conformity proportion is numpy's quotient of the number of rows
  whose weight is at least \<open>peso_min\<close> and at most \<open>peso_max\<close> and whose dimension is at
  least \<open>dimensao_min\<close> and at most \<open>dimensao_max\<close>, by the number of rows; for a sample
  that is not empty it is that number of rows divided by the sample size.
\<close>

theorem proporcao_conformes_contagem:
  "proporcao_conformes esp amostra =
     np_divide (real (length (filter (\<lambda>r. peso_min esp \<le> peso r \<and> peso r \<le> peso_max esp
                     \<and> dimensao_min esp \<le> dimensao r \<and> dimensao r \<le> dimensao_max esp) amostra)))
               (real (length amostra))
   \<and> (amostra \<noteq> [] \<longrightarrow> proporcao_conformes esp amostra =
     Fin (real (length (filter (\<lambda>r. peso_min esp \<le> peso r \<and> peso r \<le> peso_max esp
                     \<and> dimensao_min esp \<le> dimensao r \<and> dimensao r \<le> dimensao_max esp) amostra))
               / real (length amostra)))"
  by (simp add: proporcao_conformes_def pecas_conformes_map soma_conta np_divide_def)

text \<open>
  Four parts at the bounds of the script: the first is inside, the second sits on two
  bounds, the third is too heavy, the fourth too small. Two of four conform.
\<close>

theorem proporcao_conformes_contagem_witness:
  "proporcao_conformes especificacoes_lote
     [\<lparr>peso = 150, dimensao = 25\<rparr>, \<lparr>peso = 140, dimensao = 265 / 10\<rparr>,
      \<lparr>peso = 161, dimensao = 25\<rparr>, \<lparr>peso = 150, dimensao = 23\<rparr>] = Fin (1 / 2)"
  using proporcao_conformes_contagem[of especificacoes_lote
     "[\<lparr>peso = 150, dimensao = 25\<rparr>, \<lparr>peso = 140, dimensao = 265 / 10\<rparr>,
      \<lparr>peso = 161, dimensao = 25\<rparr>, \<lparr>peso = 150, dimensao = 23\<rparr>]"]
  by (simp add: especificacoes_lote_def np_divide_def)

subsection \<open>The confidence intervals\<close>








text \<open>
  C10. For every observed proportion between \<open>0\<close> and \<open>1\<close> over a sample that is not
  empty, with a critical value that is not negative: the lower bound of the interval of the
  proportion is at least \<open>0\<close>, the upper bound is at most \<open>1\<close>, and the observed proportion
  lies between the two bounds.
\<close>

theorem ic_prop_unit:
  assumes "0 \<le> p_obs" "p_obs \<le> 1" "0 < n" "0 \<le> z_ic"
  shows "0 \<le> ic_prop_inferior z_ic p_obs n \<and> ic_prop_superior z_ic p_obs n \<le> 1
       \<and> ic_prop_inferior z_ic p_obs n \<le> p_obs \<and> p_obs \<le> ic_prop_superior z_ic p_obs n"
proof -
  have "0 \<le> p_obs * (1 - p_obs) / real n" using assms by simp
  then have m: "0 \<le> margem_erro_prop z_ic p_obs n"
    using assms(4) by (simp add: margem_erro_prop_def erro_padrao_prop_def)
  show ?thesis using m assms(1,2) by (simp add: ic_prop_inferior_def ic_prop_superior_def)
qed

text \<open>One conforming part out of two, at the critical value \<open>1.959964\<close>.\<close>

theorem ic_prop_unit_witness:
  "0 \<le> ic_prop_inferior (1959964 / 1000000) (1 / 2) 2
   \<and> ic_prop_superior (1959964 / 1000000) (1 / 2) 2 \<le> 1
   \<and> ic_prop_inferior (1959964 / 1000000) (1 / 2) 2 \<le> 1 / 2
   \<and> 1 / 2 \<le> ic_prop_superior (1959964 / 1000000) (1 / 2) 2"
  using ic_prop_unit[of "1 / 2" 2 "1959964 / 1000000"] by simp

subsection \<open>The final decision\<close>

text \<open>
  C2. The label of the lot is \<open>APROVADO\<close> when the three criteria hold together, the
  absolute weight statistic at most the critical value, the absolute dimension statistic at
  most the critical value and the p-value of the proportion at least \<open>alpha\<close>, and
  \<open>REPROVADO\<close> otherwise. The dictionary holds these three criteria and no other, and the
  label is a function of the dictionary alone.
\<close>

theorem decisao_final_conjuncao:
  "decisao_final (criterios_aprovacao t_stat_peso t_stat_dimensao t_crit p_valor_prop) =
     (if np_le (np_abs t_stat_peso) t_crit \<and> np_le (np_abs t_stat_dimensao) t_crit
         \<and> np_ge p_valor_prop alpha
      then ''APROVADO'' else ''REPROVADO'')
   \<and> map fst (criterios_aprovacao t_stat_peso t_stat_dimensao t_crit p_valor_prop)
       = [''peso_media_ok'', ''dimensao_media_ok'', ''conformidade_ok'']
   \<and> (decisao_final (criterios_aprovacao t_stat_peso t_stat_dimensao t_crit p_valor_prop)
        = ''APROVADO''
      \<longleftrightarrow> np_le (np_abs t_stat_peso) t_crit \<and> np_le (np_abs t_stat_dimensao) t_crit
         \<and> np_ge p_valor_prop alpha)"
  by (simp add: decisao_final_def todos_criterios_ok_def criterios_aprovacao_def)

text \<open>
  All three criteria met; the dimension statistic beyond the critical value; a weight
  statistic that is NaN.
\<close>

theorem decisao_final_conjuncao_witness:
  "decisao_final (criterios_aprovacao (Fin (1 / 3)) (Fin (- 1)) 2 (Fin (1 / 2))) = ''APROVADO''
   \<and> decisao_final (criterios_aprovacao (Fin (1 / 3)) (Fin (- 3)) 2 (Fin (1 / 2))) = ''REPROVADO''
   \<and> decisao_final (criterios_aprovacao NaN (Fin (- 1)) 2 (Fin (1 / 2))) = ''REPROVADO''"
  using decisao_final_conjuncao[of "Fin (1 / 3)" "Fin (- 1)" 2 "Fin (1 / 2)"]
    decisao_final_conjuncao[of "Fin (1 / 3)" "Fin (- 3)" 2 "Fin (1 / 2)"]
    decisao_final_conjuncao[of NaN "Fin (- 1)" 2 "Fin (1 / 2)"]
  by (simp add: alpha_def)

subsection \<open>Error handling\<close>





end
